theory Spec2Isabelle
  imports Main "HOL-Library.Sublist"
begin

section \<open>Strings and formatting\<close>

text \<open>
  Go strings are byte sequences; they are modelled as \<open>string\<close> (a list of 8-bit
  characters). The helpers below are the functions of package \<open>strings\<close> and the
  \<open>%d\<close> verb of package \<open>fmt\<close> that the program calls.
\<close>

fun Contains :: "string \<Rightarrow> string \<Rightarrow> bool" where
  "Contains [] substr = (substr = [])"
| "Contains (c # cs) substr = (prefix substr (c # cs) \<or> Contains cs substr)"

definition HasPrefix :: "string \<Rightarrow> string \<Rightarrow> bool" where
  "HasPrefix s p = prefix p s"

definition TrimRight :: "string \<Rightarrow> string \<Rightarrow> string" where
  "TrimRight s cutset = rev (dropWhile (\<lambda>c. c \<in> set cutset) (rev s))"

definition digit_char :: "nat \<Rightarrow> char" where
  "digit_char d = char_of (48 + d)"

fun fmt_nat :: "nat \<Rightarrow> string" where
  "fmt_nat n = (if n < 10 then [digit_char n] else fmt_nat (n div 10) @ [digit_char (n mod 10)])"

declare fmt_nat.simps [simp del]

definition fmt_d :: "int \<Rightarrow> string" where
  "fmt_d i = (if i < 0 then CHR ''-'' # fmt_nat (nat (- i)) else fmt_nat (nat i))"

section \<open>Errors\<close>

text \<open>
  The three sentinel errors of package \<open>auth\<close>, and the errors built with
  \<open>fmt.Errorf\<close>: \<open>Errorf m\<close> is an error whose message is \<open>m\<close> (the format with its
  \<open>%s\<close> and \<open>%d\<close> arguments filled in), \<open>Wrapf p e\<close> is \<open>fmt.Errorf(p + "%w", e)\<close>, and
  \<open>ContextNotFound n\<close> is \<open>fmt.Errorf("context %q does not exist", n)\<close>. Errors returned
  by the standard library or the operating system are values of the same type.
\<close>

datatype error =
    ErrEmptyCredentials
  | ErrEmptyToken
  | ErrInvalidServer
  | Errorf string
  | Wrapf string error
  | ContextNotFound string

section \<open>Package auth\<close>

record Credentials =
  Username :: string
  Password :: string

record AuthResponse =
  Token :: string
  Error :: string

text \<open>\<open>Timeout\<close> is a \<open>time.Duration\<close>, a count of nanoseconds.\<close>

record Config =
  Server :: string
  AuthPath :: string
  Timeout :: int
  InsecureSkipVerify :: bool

definition Second :: int where
  "Second = 1000000000"

definition DefaultConfig :: Config where
  "DefaultConfig = \<lparr>Server = [], AuthPath = ''/auth'', Timeout = 10 * Second,
     InsecureSkipVerify = False\<rparr>"

text \<open>
  The \<open>http.Client\<close> that \<open>NewAuthenticator\<close> builds: its timeout and the
  \<open>InsecureSkipVerify\<close> field of its transport's TLS configuration.
\<close>

record Client =
  client_Timeout :: int
  TLS_InsecureSkipVerify :: bool

record httpAuthenticator =
  config :: Config
  client :: Client

text \<open>
  The struct \<open>url.URL\<close>. \<open>User\<close> is the optional user information: a username and an
  optional password.
\<close>

record URL =
  Scheme :: string
  Opaque :: string
  User :: "(string \<times> string option) option"
  Host :: string
  Path :: string
  RawPath :: string
  OmitHost :: bool
  ForceQuery :: bool
  RawQuery :: string
  Fragment :: string
  RawFragment :: string

record Request =
  Method :: string
  ReqURL :: string
  Header :: "(string \<times> string) list"
  Body :: string

text \<open>
  A response as \<open>Authenticate\<close> sees it: the status code, and what \<open>io.ReadAll\<close> on
  the body gives (the bytes, or a read error).
\<close>

record Response =
  StatusCode :: int
  RespBody :: "error + string"

text \<open>
  Everything outside the repository that package \<open>auth\<close> calls is a field of the
  environment: \<open>url.Parse\<close> and \<open>URL.String\<close>, \<open>json.Marshal\<close> on the credentials,
  the validation of \<open>http.NewRequest\<close> (the error it returns for a method and a URL,
  if any), the network round trip \<open>client.Do\<close>, and \<open>json.Unmarshal\<close> into an
  \<open>AuthResponse\<close>. The theorems hold for every environment.
\<close>

record env =
  url_Parse :: "string \<Rightarrow> error + URL"
  url_String :: "URL \<Rightarrow> string"
  json_Marshal :: "Credentials \<Rightarrow> error + string"
  NewRequest_error :: "string \<Rightarrow> string \<Rightarrow> error option"
  client_Do :: "Client \<Rightarrow> Request \<Rightarrow> error + Response"
  json_Unmarshal :: "string \<Rightarrow> error + AuthResponse"

text \<open>
  The observable input and output of \<open>Authenticate\<close>: a request handed to
  \<open>client.Do\<close>, and the deferred drain and close of the response body.
\<close>

datatype event = Sent Client Request | BodyClosed

definition NewAuthenticator :: "env \<Rightarrow> Config option \<Rightarrow> error + httpAuthenticator" where
  "NewAuthenticator E config0 =
     (let cfg = (case config0 of None \<Rightarrow> DefaultConfig | Some c \<Rightarrow> c) in
      if Server cfg = [] then Inl ErrInvalidServer
      else case url_Parse E (Server cfg) of
        Inl err \<Rightarrow> Inl (Wrapf ''invalid server URL: '' err)
      | Inr parsed \<Rightarrow>
          let serverURL = (if Scheme parsed = [] then parsed\<lparr>Scheme := ''https''\<rparr> else parsed);
              cfg = cfg\<lparr>Server := TrimRight (url_String E serverURL) ''/''\<rparr>;
              cfg = (if AuthPath cfg \<noteq> [] \<and> \<not> HasPrefix (AuthPath cfg) ''/''
                     then cfg\<lparr>AuthPath := ''/'' @ AuthPath cfg\<rparr> else cfg)
          in Inr \<lparr>config = cfg,
                  client = \<lparr>client_Timeout = Timeout cfg,
                             TLS_InsecureSkipVerify = InsecureSkipVerify cfg\<rparr>\<rparr>)"

text \<open>
  The part of the method \<open>Authenticate\<close> that runs once \<open>client.Do\<close> has returned a
  response: read the body, decode it, check the status, check the token.
\<close>

definition handle_response :: "env \<Rightarrow> Response \<Rightarrow> error + string" where
  "handle_response E resp =
     (case RespBody resp of
        Inl err \<Rightarrow> Inl (Wrapf ''failed to read response body: '' err)
      | Inr body \<Rightarrow>
          (case json_Unmarshal E body of
             Inl err \<Rightarrow> Inl (Wrapf ''failed to decode response: '' err)
           | Inr authResp \<Rightarrow>
               if StatusCode resp \<noteq> 200 then
                 (if Error authResp \<noteq> []
                  then Inl (Errorf (''authentication failed: '' @ Error authResp))
                  else Inl (Errorf (''authentication failed with status code: '' @
                                     fmt_d (StatusCode resp))))
               else if Token authResp = [] then Inl ErrEmptyToken
               else Inr (Token authResp)))"

text \<open>
  Lines 141 to 147 of \<open>authenticator.go\<close>: the request is a POST to the URL with the
  serialized credentials as its body and the two JSON headers.
\<close>

definition new_post_request :: "string \<Rightarrow> string \<Rightarrow> Request" where
  "new_post_request authURL jsonData =
     \<lparr>Method = ''POST'', ReqURL = authURL,
      Header = [(''Content-Type'', ''application/json''), (''Accept'', ''application/json'')],
      Body = jsonData\<rparr>"

text \<open>
  The method \<open>(*httpAuthenticator).Authenticate\<close>. The result is paired with the
  events the call performed, in order.
\<close>

definition httpAuthenticator_Authenticate ::
  "env \<Rightarrow> httpAuthenticator \<Rightarrow> string \<Rightarrow> string \<Rightarrow> (error + string) \<times> event list" where
  "httpAuthenticator_Authenticate E a username password =
     (if username = [] \<or> password = [] then (Inl ErrEmptyCredentials, [])
      else if Contains (Server (config a)) ''test.com'' then (Inr ''test-token'', [])
      else
        let authURL = Server (config a) @ AuthPath (config a);
            creds = \<lparr>Username = username, Password = password\<rparr>
        in (case json_Marshal E creds of
              Inl err \<Rightarrow> (Inl (Wrapf ''failed to marshal credentials: '' err), [])
            | Inr jsonData \<Rightarrow>
                (case NewRequest_error E ''POST'' authURL of
                   Some err \<Rightarrow> (Inl (Wrapf ''failed to create request: '' err), [])
                 | None \<Rightarrow>
                     (let req = new_post_request authURL jsonData
                      in (case client_Do E (client a) req of
                            Inl err \<Rightarrow>
                              (Inl (Wrapf ''failed to send request: '' err), [Sent (client a) req])
                          | Inr resp \<Rightarrow>
                              (handle_response E resp, [Sent (client a) req, BodyClosed]))))))"

text \<open>The package-level function \<open>Authenticate\<close>, kept for backward compatibility.\<close>

definition Authenticate :: "env \<Rightarrow> string \<Rightarrow> string \<Rightarrow> string \<Rightarrow> (error + string) \<times> event list" where
  "Authenticate E server username password =
     (if username = [] \<or> password = [] then (Inl ErrEmptyCredentials, [])
      else if Contains server ''test.com'' then (Inr ''test-token'', [])
      else case NewAuthenticator E
                  (Some \<lparr>Server = server, AuthPath = [], Timeout = 0, InsecureSkipVerify = False\<rparr>) of
             Inl err \<Rightarrow> (Inl (Wrapf ''failed to create authenticator: '' err), [])
           | Inr auth \<Rightarrow> httpAuthenticator_Authenticate E auth username password)"

section \<open>A concrete environment\<close>

text \<open>
  For closed instances the environment is made concrete. \<open>plain_url_Parse\<close> and
  \<open>plain_url_String\<close> model \<open>url.Parse\<close> and \<open>URL.String\<close> on plain URLs: those
  written with letters, digits and the characters \<open>- . _ ~ + : /\<close> only, so that there
  is no query, fragment, user information, escape, bracket or control byte to handle.
  Any other input is outside this model and is rejected with an error of the model's own;
  a URL is printed from its scheme, opaque part, host and path, the other fields being
  empty in what \<open>plain_url_Parse\<close> returns. The theorems do not depend on this model:
  they are stated for every environment.
\<close>

definition is_letter :: "char \<Rightarrow> bool" where
  "is_letter c = (let n = (of_char c :: nat) in (97 \<le> n \<and> n \<le> 122) \<or> (65 \<le> n \<and> n \<le> 90))"

definition is_digit :: "char \<Rightarrow> bool" where
  "is_digit c = (let n = (of_char c :: nat) in 48 \<le> n \<and> n \<le> 57)"

definition is_plain :: "char \<Rightarrow> bool" where
  "is_plain c = (is_letter c \<or> is_digit c \<or> c \<in> set ''-._~+:/'')"

definition ToLower :: "string \<Rightarrow> string" where
  "ToLower s = map (\<lambda>c. let n = (of_char c :: nat) in
                          if 65 \<le> n \<and> n \<le> 90 then char_of (n + 32) else c) s"

text \<open>
  \<open>getScheme rawURL seen rest\<close>: the loop of \<open>getScheme\<close> over \<open>rawURL\<close>, with \<open>seen\<close>
  the bytes already passed and \<open>rest\<close> the bytes still to read.
\<close>

fun getScheme :: "string \<Rightarrow> string \<Rightarrow> string \<Rightarrow> error + (string \<times> string)" where
  "getScheme rawURL seen [] = Inr ([], rawURL)"
| "getScheme rawURL seen (c # cs) =
     (if is_letter c then getScheme rawURL (seen @ [c]) cs
      else if is_digit c \<or> c = CHR ''+'' \<or> c = CHR ''-'' \<or> c = CHR ''.'' then
        (if seen = [] then Inr ([], rawURL) else getScheme rawURL (seen @ [c]) cs)
      else if c = CHR '':'' then
        (if seen = [] then Inl (Errorf ''missing protocol scheme'') else Inr (seen, cs))
      else Inr ([], rawURL))"

definition validOptionalPort :: "string \<Rightarrow> bool" where
  "validOptionalPort port =
     (case port of [] \<Rightarrow> True | c # cs \<Rightarrow> c = CHR '':'' \<and> list_all is_digit cs)"

definition parseHost :: "string \<Rightarrow> error + string" where
  "parseHost host =
     (if CHR '':'' \<in> set host \<and>
         \<not> validOptionalPort (CHR '':'' # rev (takeWhile (\<lambda>c. c \<noteq> CHR '':'') (rev host)))
      then Inl (Errorf ''invalid port after host'')
      else Inr host)"

definition empty_URL :: URL where
  "empty_URL = \<lparr>Scheme = [], Opaque = [], User = None, Host = [], Path = [], RawPath = [],
     OmitHost = False, ForceQuery = False, RawQuery = [], Fragment = [], RawFragment = []\<rparr>"

definition plain_url_Parse :: "string \<Rightarrow> error + URL" where
  "plain_url_Parse rawURL =
     (if \<not> list_all is_plain rawURL then Inl (Errorf ''not a plain URL'')
      else case getScheme rawURL [] rawURL of
        Inl err \<Rightarrow> Inl err
      | Inr (scheme0, rest) \<Rightarrow>
          (let scheme = ToLower scheme0 in
           if \<not> prefix ''/'' rest \<and> scheme \<noteq> [] then
             Inr (empty_URL\<lparr>Scheme := scheme, Opaque := rest\<rparr>)
           else if \<not> prefix ''/'' rest \<and> CHR '':'' \<in> set (takeWhile (\<lambda>c. c \<noteq> CHR ''/'') rest) then
             Inl (Errorf ''first path segment in URL cannot contain colon'')
           else if \<not> (scheme = [] \<and> prefix ''///'' rest) \<and> prefix ''//'' rest then
             (let authority = takeWhile (\<lambda>c. c \<noteq> CHR ''/'') (drop 2 rest);
                  path = dropWhile (\<lambda>c. c \<noteq> CHR ''/'') (drop 2 rest)
              in case parseHost authority of
                   Inl err \<Rightarrow> Inl err
                 | Inr host \<Rightarrow> Inr (empty_URL\<lparr>Scheme := scheme, Host := host, Path := path\<rparr>))
           else if scheme \<noteq> [] \<and> prefix ''/'' rest then
             Inr (empty_URL\<lparr>Scheme := scheme, Path := rest, OmitHost := True\<rparr>)
           else Inr (empty_URL\<lparr>Scheme := scheme, Path := rest\<rparr>)))"

definition plain_url_String :: "URL \<Rightarrow> string" where
  "plain_url_String u =
     (let buf = (if Scheme u \<noteq> [] then Scheme u @ '':'' else []) in
      if Opaque u \<noteq> [] then buf @ Opaque u
      else
        (let buf = (if Scheme u = [] \<and> Host u = [] then buf
                    else if OmitHost u \<and> Host u = [] then buf
                    else buf @ (if Host u = [] \<and> Path u = [] then [] else ''//'') @ Host u);
             buf = (if Path u \<noteq> [] \<and> \<not> prefix ''/'' (Path u) \<and> Host u \<noteq> []
                    then buf @ ''/'' else buf);
             buf = (if buf = [] \<and> CHR '':'' \<in> set (takeWhile (\<lambda>c. c \<noteq> CHR ''/'') (Path u))
                    then ''./'' else buf)
         in buf @ Path u))"

text \<open>
  \<open>json.Marshal\<close> on credentials whose fields need no escaping, and a decoder given
  by a table: the listed bodies decode to the listed values, and every other body is
  rejected, as a body that is not JSON is.
\<close>

definition plain_json_Marshal :: "Credentials \<Rightarrow> error + string" where
  "plain_json_Marshal c =
     Inr (''{'' @ [CHR 0x22] @ ''username'' @ [CHR 0x22] @ '':'' @ [CHR 0x22] @ Username c @
          [CHR 0x22] @ '','' @ [CHR 0x22] @ ''password'' @ [CHR 0x22] @ '':'' @ [CHR 0x22] @
          Password c @ [CHR 0x22] @ ''}'')"

definition table_Unmarshal :: "(string \<times> AuthResponse) list \<Rightarrow> string \<Rightarrow> error + AuthResponse" where
  "table_Unmarshal tbl body =
     (case map_of tbl body of
        None \<Rightarrow> Inl (Errorf ''invalid JSON'')
      | Some r \<Rightarrow> Inr r)"

text \<open>
  \<open>stub_env do tbl\<close> is the environment whose network answers every request with
  \<open>do\<close>; \<open>offline_env\<close> has no reachable server at all.
\<close>

definition stub_env ::
  "(error + Response) \<Rightarrow> (string \<times> AuthResponse) list \<Rightarrow> env" where
  "stub_env do tbl =
     \<lparr>url_Parse = plain_url_Parse, url_String = plain_url_String,
      json_Marshal = plain_json_Marshal, NewRequest_error = (\<lambda>m u. None),
      client_Do = (\<lambda>c r. do), json_Unmarshal = table_Unmarshal tbl\<rparr>"

definition offline_env :: env where
  "offline_env = stub_env (Inl (Errorf ''connection refused'')) []"

section \<open>Package util: the secure reader\<close>

text \<open>
  The terminal is in one of two modes: canonical (line-buffered, echoing) or raw. A
  \<open>terminal.State\<close> is the mode that \<open>GetState\<close> recorded. The terminal also carries
  what has been written to standard output and a history of the operations performed on
  it; a read is logged with the mode the terminal was in when it happened.
\<close>

datatype tty_mode = Canonical | Raw

datatype tty_event = GetState | Read tty_mode | Restore tty_mode

record terminal =
  mode :: tty_mode
  stdout :: string
  history :: "tty_event list"

text \<open>
  One call of \<open>r.reader.Read(char[:])\<close> returns a byte, or nothing (\<open>n = 0\<close> without
  an error), or an error. The input is a finite list of such outcomes; when it is
  exhausted the reader is at the end of its stream and returns \<open>io.EOF\<close>.
\<close>

datatype read_result = Got char | NoData | ReadFailed error

definition io_EOF :: error where
  "io_EOF = Errorf ''EOF''"

record tty_input =
  prompt_error :: "error option"
  GetState_error :: "error option"
  reads :: "read_result list"

definition is_printable :: "char \<Rightarrow> bool" where
  "is_printable c = (32 \<le> (of_char c :: nat) \<and> (of_char c :: nat) \<le> 126)"

text \<open>
  One iteration of the \<open>for\<close> loop of \<open>ReadSecurely\<close>, with the buffer \<open>password\<close>:
  it either returns from the function or goes round again. The results of the echo
  writes are discarded by the code; the model appends what is written.
\<close>

datatype iteration = Return "error + string" terminal | Continue string terminal

definition read_iteration :: "read_result \<Rightarrow> string \<Rightarrow> terminal \<Rightarrow> iteration" where
  "read_iteration r password t0 =
     (let t = t0\<lparr>history := history t0 @ [Read (mode t0)]\<rparr> in
      case r of
        ReadFailed err \<Rightarrow> Return (Inl (Wrapf ''failed to read character: '' err)) t
      | NoData \<Rightarrow> Continue password t
      | Got c \<Rightarrow>
          if c = CHR 0x0D \<or> c = CHR 0x0A then
            Return (Inr password) (t\<lparr>stdout := stdout t @ [CHR 0x0A]\<rparr>)
          else if c = CHR 0x03 then Return (Inl (Errorf ''interrupted by user'')) t
          else if c = CHR 0x08 \<or> c = CHR 0x7F then
            (if length password > 0
             then Continue (butlast password)
                    (t\<lparr>stdout := stdout t @ [CHR 0x08, CHR '' '', CHR 0x08]\<rparr>)
             else Continue password t)
          else if is_printable c then
            Continue (password @ [c]) (t\<lparr>stdout := stdout t @ ''*''\<rparr>)
          else Continue password t)"

fun read_loop :: "read_result list \<Rightarrow> string \<Rightarrow> terminal \<Rightarrow> (error + string) \<times> terminal" where
  "read_loop [] password t =
     (Inl (Wrapf ''failed to read character: '' io_EOF),
      t\<lparr>history := history t @ [Read (mode t)]\<rparr>)"
| "read_loop (r # rs) password t =
     (case read_iteration r password t of
        Return res t' \<Rightarrow> (res, t')
      | Continue password' t' \<Rightarrow> read_loop rs password' t')"

text \<open>
  \<open>ReadSecurely\<close>: write the prompt, record the terminal state, run the loop, and
  (deferred) restore the recorded state. The source calls \<open>terminal.GetState\<close> and
  \<open>terminal.Restore\<close> only; it has no call that changes the mode.
\<close>

definition ReadSecurely :: "tty_input \<Rightarrow> string \<Rightarrow> terminal \<Rightarrow> (error + string) \<times> terminal" where
  "ReadSecurely inp prompt t =
     (case prompt_error inp of
        Some err \<Rightarrow> (Inl (Wrapf ''failed to write prompt: '' err), t)
      | None \<Rightarrow>
          (let t = t\<lparr>stdout := stdout t @ prompt, history := history t @ [GetState]\<rparr> in
           case GetState_error inp of
             Some err \<Rightarrow> (Inl (Wrapf ''failed to set terminal to raw mode: '' err), t)
           | None \<Rightarrow>
               (let oldState = mode t;
                    res = read_loop (reads inp) [] t
                in (fst res,
                    (snd res)\<lparr>mode := oldState,
                               history := history (snd res) @ [Restore oldState]\<rparr>))))"

subsection \<open>The reader as the specification words it\<close>

text \<open>
  The specification describes the reader as a left fold over the input: a state that is
  either still reading (with the buffer and what has been echoed) or finished (with the
  result and what has been echoed), and one step per read.
\<close>

datatype reader_state = Reading string string | Finished "error + string" string

fun spec_step :: "reader_state \<Rightarrow> read_result \<Rightarrow> reader_state" where
  "spec_step (Finished res out) r = Finished res out"
| "spec_step (Reading buf out) (ReadFailed err) =
     Finished (Inl (Wrapf ''failed to read character: '' err)) out"
| "spec_step (Reading buf out) NoData = Reading buf out"
| "spec_step (Reading buf out) (Got c) =
     (if c = CHR 0x0D \<or> c = CHR 0x0A then Finished (Inr buf) (out @ [CHR 0x0A])
      else if c = CHR 0x03 then Finished (Inl (Errorf ''interrupted by user'')) out
      else if c = CHR 0x08 \<or> c = CHR 0x7F then
        (if buf = [] then Reading buf out
         else Reading (butlast buf) (out @ [CHR 0x08, CHR '' '', CHR 0x08]))
      else if is_printable c then Reading (buf @ [c]) (out @ ''*'')
      else Reading buf out)"

text \<open>
  The result and the echo of a fold. A fold that is still reading when the input ends
  meets the read failure of the exhausted stream.
\<close>

fun spec_result :: "reader_state \<Rightarrow> error + string" where
  "spec_result (Finished res out) = res"
| "spec_result (Reading buf out) = Inl (Wrapf ''failed to read character: '' io_EOF)"

fun spec_echo :: "reader_state \<Rightarrow> string" where
  "spec_echo (Finished res out) = out"
| "spec_echo (Reading buf out) = out"

section \<open>Package cmd: the configuration file, login and use-context\<close>

text \<open>
  The fields of the \<open>clientcmd/api\<close> types that the commands read or write. A file on
  disk is identified with the configuration it holds: \<open>clientcmd.WriteToFile\<close> replaces
  the whole content of the file by the configuration it is given, and
  \<open>clientcmd.LoadFromFile\<close> gives back the configuration a file holds.
\<close>

record Cluster =
  cluster_Server :: string
  InsecureSkipTLSVerify :: bool

record AuthInfo =
  authinfo_Token :: string

record Context =
  context_Cluster :: string
  context_AuthInfo :: string

record api_Config =
  Clusters :: "string \<rightharpoonup> Cluster"
  AuthInfos :: "string \<rightharpoonup> AuthInfo"
  Contexts :: "string \<rightharpoonup> Context"
  CurrentContext :: string

definition NewConfig :: api_Config where
  "NewConfig = \<lparr>Clusters = Map.empty, AuthInfos = Map.empty, Contexts = Map.empty,
     CurrentContext = []\<rparr>"

definition NewCluster :: Cluster where
  "NewCluster = \<lparr>cluster_Server = [], InsecureSkipTLSVerify = False\<rparr>"

definition NewAuthInfo :: AuthInfo where
  "NewAuthInfo = \<lparr>authinfo_Token = []\<rparr>"

definition NewContext :: Context where
  "NewContext = \<lparr>context_Cluster = [], context_AuthInfo = []\<rparr>"

type_synonym files = "string \<rightharpoonup> api_Config"

text \<open>
  What the commands ask of the operating system and of the user: the environment
  variables, the home directory, \<open>filepath.Join\<close> and \<open>filepath.Dir\<close>, whether
  \<open>os.MkdirAll\<close> or the write of a file fails, and what \<open>util.ReadInput\<close> and
  \<open>util.ReadPassword\<close> return for a prompt.
\<close>

record sys =
  Getenv :: "string \<Rightarrow> string"
  UserHomeDir :: "error + string"
  filepath_Join :: "string list \<Rightarrow> string"
  filepath_Dir :: "string \<Rightarrow> string"
  MkdirAll_error :: "string \<Rightarrow> error option"
  WriteFile_error :: "string \<Rightarrow> error option"
  ReadInput :: "string \<Rightarrow> error + string"
  ReadPassword :: "string \<Rightarrow> error + string"

definition LoadFromFile :: "files \<Rightarrow> string \<Rightarrow> error + api_Config" where
  "LoadFromFile fs path =
     (case fs path of
        None \<Rightarrow> Inl (Errorf ''no such file or directory'')
      | Some c \<Rightarrow> Inr c)"

definition WriteToFile :: "sys \<Rightarrow> api_Config \<Rightarrow> string \<Rightarrow> files \<Rightarrow> error + files" where
  "WriteToFile S c path fs =
     (case WriteFile_error S path of
        Some err \<Rightarrow> Inl err
      | None \<Rightarrow> Inr (fs(path \<mapsto> c)))"

text \<open>The lookup of the configuration path, which both commands start with.\<close>

definition kubeconfig_path :: "sys \<Rightarrow> error + string" where
  "kubeconfig_path S =
     (if Getenv S ''KUBECONFIG'' \<noteq> [] then Inr (Getenv S ''KUBECONFIG'')
      else case UserHomeDir S of
        Inl err \<Rightarrow> Inl (Wrapf ''failed to get home directory: '' err)
      | Inr homeDir \<Rightarrow> Inr (filepath_Join S [homeDir, ''.kube'', ''config'']))"

text \<open>
  The flags of \<open>login\<close>. The username and the password are bound to package variables;
  \<open>insecure-skip-tls-verify\<close> is declared with \<open>cmd.Flags().Bool\<close> and its value is
  read nowhere.
\<close>

record flags =
  flag_username :: string
  flag_password :: string
  flag_insecure_skip_tls_verify :: bool

definition get_username :: "sys \<Rightarrow> flags \<Rightarrow> error + string" where
  "get_username S fl =
     (if flag_username fl = [] then
        (case ReadInput S [] of
           Inl err \<Rightarrow> Inl (Wrapf ''failed to read username: '' err)
         | Inr u \<Rightarrow> if u = [] then Inl (Errorf ''username cannot be empty'') else Inr u)
      else Inr (flag_username fl))"

definition get_password :: "sys \<Rightarrow> flags \<Rightarrow> error + string" where
  "get_password S fl =
     (if flag_password fl = [] then
        (case ReadPassword S ''Enter password: '' of
           Inl err \<Rightarrow> Inl (Wrapf ''failed to read password: '' err)
         | Inr p \<Rightarrow> if p = [] then Inl (Errorf ''password cannot be empty'') else Inr p)
      else Inr (flag_password fl))"

text \<open>Lines 84 to 104 of \<open>login.go\<close>: the configuration that \<open>login\<close> writes.\<close>

definition login_kubeconfig :: "string \<Rightarrow> string \<Rightarrow> api_Config" where
  "login_kubeconfig server authToken =
     (let kubeconfig = NewConfig;
          cluster = NewCluster\<lparr>cluster_Server := server, InsecureSkipTLSVerify := True\<rparr>;
          kubeconfig = kubeconfig\<lparr>Clusters := (Clusters kubeconfig)(server \<mapsto> cluster)\<rparr>;
          authInfo = NewAuthInfo\<lparr>authinfo_Token := authToken\<rparr>;
          kubeconfig = kubeconfig\<lparr>AuthInfos := (AuthInfos kubeconfig)(server \<mapsto> authInfo)\<rparr>;
          context = NewContext\<lparr>context_Cluster := server, context_AuthInfo := server\<rparr>;
          kubeconfig = kubeconfig\<lparr>Contexts := (Contexts kubeconfig)(server \<mapsto> context)\<rparr>
      in kubeconfig\<lparr>CurrentContext := server\<rparr>)"

text \<open>Lines 106 to 124 of \<open>login.go\<close>: find the path, make the directory, write.\<close>

definition save_kubeconfig :: "sys \<Rightarrow> api_Config \<Rightarrow> files \<Rightarrow> error + files" where
  "save_kubeconfig S kubeconfig fs =
     (case kubeconfig_path S of
        Inl err \<Rightarrow> Inl err
      | Inr kubeconfigPath \<Rightarrow>
          (case MkdirAll_error S (filepath_Dir S kubeconfigPath) of
             Some err \<Rightarrow> Inl (Wrapf ''failed to create kubeconfig directory: '' err)
           | None \<Rightarrow>
               (case WriteToFile S kubeconfig kubeconfigPath fs of
                  Inl err \<Rightarrow> Inl (Wrapf ''failed to write kubeconfig: '' err)
                | Inr fs' \<Rightarrow> Inr fs')))"

text \<open>
  The \<open>RunE\<close> of \<open>login\<close>: the error it returns (if any), the files afterwards, and the
  events of the authentication.
\<close>

definition login_RunE ::
  "env \<Rightarrow> sys \<Rightarrow> flags \<Rightarrow> string list \<Rightarrow> files \<Rightarrow> error option \<times> files \<times> event list" where
  "login_RunE E S fl args fs =
     (case args of
        [] \<Rightarrow> (Some (Errorf ''server URL is required''), fs, [])
      | server # _ \<Rightarrow>
          (if server = [] then (Some (Errorf ''server URL cannot be empty''), fs, [])
           else
             (case get_username S fl of
                Inl err \<Rightarrow> (Some err, fs, [])
              | Inr username \<Rightarrow>
                  (case get_password S fl of
                     Inl err \<Rightarrow> (Some err, fs, [])
                   | Inr password \<Rightarrow>
                       (case NewAuthenticator E
                               (Some \<lparr>Server = server, AuthPath = [], Timeout = 0,
                                      InsecureSkipVerify = False\<rparr>) of
                          Inl err \<Rightarrow>
                            (Some (Wrapf ''failed to create authenticator: '' err), fs, [])
                        | Inr authenticator \<Rightarrow>
                            (case httpAuthenticator_Authenticate E authenticator username password of
                               (Inl err, evs) \<Rightarrow>
                                 (Some (Wrapf ''authentication failed: '' err), fs, evs)
                             | (Inr authToken, evs) \<Rightarrow>
                                 (case save_kubeconfig S (login_kubeconfig server authToken) fs of
                                    Inl err \<Rightarrow> (Some err, fs, evs)
                                  | Inr fs' \<Rightarrow> (None, fs', evs))))))))"

text \<open>The \<open>RunE\<close> of \<open>use-context\<close>: the error it returns (if any) and the files afterwards.\<close>

definition use_context_RunE :: "sys \<Rightarrow> string list \<Rightarrow> files \<Rightarrow> error option \<times> files" where
  "use_context_RunE S args fs =
     (case args of
        [] \<Rightarrow> (Some (Errorf ''context name is required''), fs)
      | contextName # _ \<Rightarrow>
          (case kubeconfig_path S of
             Inl err \<Rightarrow> (Some err, fs)
           | Inr kubeconfigPath \<Rightarrow>
               (case LoadFromFile fs kubeconfigPath of
                  Inl err \<Rightarrow> (Some (Wrapf ''failed to load kubeconfig: '' err), fs)
                | Inr c \<Rightarrow>
                    if Contexts c contextName = None then (Some (ContextNotFound contextName), fs)
                    else (case WriteToFile S (c\<lparr>CurrentContext := contextName\<rparr>) kubeconfigPath fs of
                            Inl err \<Rightarrow> (Some (Wrapf ''failed to write kubeconfig: '' err), fs)
                          | Inr fs' \<Rightarrow> (None, fs')))))"

text \<open>
  A concrete system for closed instances: \<open>KUBECONFIG\<close> names the file
  \<open>/tmp/skectl/config\<close>, directories can be made and files written, and the user types
  nothing (both credentials come from the flags). \<open>clean_Join\<close> and \<open>clean_Dir\<close> are
  \<open>filepath.Join\<close> and \<open>filepath.Dir\<close> on clean paths, where joining puts one
  separator between the elements and the directory is what precedes the last separator.
\<close>

definition clean_Join :: "string list \<Rightarrow> string" where
  "clean_Join ps = foldr (\<lambda>p acc. if acc = [] then p else p @ CHR ''/'' # acc) ps []"

definition clean_Dir :: "string \<Rightarrow> string" where
  "clean_Dir p = rev (tl (dropWhile (\<lambda>c. c \<noteq> CHR ''/'') (rev p)))"

definition test_sys :: sys where
  "test_sys =
     \<lparr>Getenv = (\<lambda>k. if k = ''KUBECONFIG'' then ''/tmp/skectl/config'' else []),
      UserHomeDir = Inr ''/root'',
      filepath_Join = clean_Join,
      filepath_Dir = clean_Dir,
      MkdirAll_error = (\<lambda>d. None),
      WriteFile_error = (\<lambda>p. None),
      ReadInput = (\<lambda>p. Inl io_EOF),
      ReadPassword = (\<lambda>p. Inl io_EOF)\<rparr>"

text \<open>
  The statement of the specification that construction strips one trailing slash, as a
  function of its own, to compare with what \<open>NewAuthenticator\<close> computes.
\<close>

definition spec_strip_one_slash :: "string \<Rightarrow> string" where
  "spec_strip_one_slash s = (if suffix ''/'' s then butlast s else s)"

section \<open>Inputs for closed instances\<close>

text \<open>
  Two response bodies with the values they decode to, a server that answers every
  request with status 200 and a token, and an authenticator as \<open>NewAuthenticator\<close>
  builds it for \<open>https://api.example.com\<close> with the path \<open>/auth\<close>.
\<close>

definition bad_creds_body :: string where
  "bad_creds_body = ''{'' @ [CHR 0x22] @ ''error'' @ [CHR 0x22] @ '':'' @ [CHR 0x22] @
     ''bad creds'' @ [CHR 0x22] @ ''}''"

definition token_body :: string where
  "token_body = ''{'' @ [CHR 0x22] @ ''token'' @ [CHR 0x22] @ '':'' @ [CHR 0x22] @
     ''tok-123'' @ [CHR 0x22] @ ''}''"

definition token_env :: env where
  "token_env = stub_env (Inr \<lparr>StatusCode = 200, RespBody = Inr token_body\<rparr>)
     [(token_body, \<lparr>Token = ''tok-123'', Error = []\<rparr>)]"

definition example_authenticator :: httpAuthenticator where
  "example_authenticator =
     \<lparr>config = \<lparr>Server = ''https://api.example.com'', AuthPath = ''/auth'', Timeout = 0,
                 InsecureSkipVerify = False\<rparr>,
      client = \<lparr>client_Timeout = 0, TLS_InsecureSkipVerify = False\<rparr>\<rparr>"

text \<open>The requests among the events, each with the client that sent it.\<close>

fun sent_requests :: "event list \<Rightarrow> (Client \<times> Request) list" where
  "sent_requests [] = []"
| "sent_requests (Sent c r # evs) = (c, r) # sent_requests evs"
| "sent_requests (BodyClosed # evs) = sent_requests evs"

text \<open>
  A login with both credentials given as flags, and \<open>insecure-skip-tls-verify\<close> set
  to \<open>b\<close>.
\<close>

definition login_flags :: "bool \<Rightarrow> flags" where
  "login_flags b = \<lparr>flag_username = ''admin'', flag_password = ''pw'',
     flag_insecure_skip_tls_verify = b\<rparr>"

text \<open>
  A terminal in canonical mode with nothing written yet, and an input on which the prompt
  and \<open>GetState\<close> succeed and the user types the given bytes.
\<close>

definition tty0 :: terminal where
  "tty0 = \<lparr>mode = Canonical, stdout = [], history = []\<rparr>"

definition typed :: "string \<Rightarrow> tty_input" where
  "typed bytes = \<lparr>prompt_error = None, GetState_error = None, reads = map Got bytes\<rparr>"

text \<open>A configuration with the two contexts \<open>a\<close> and \<open>b\<close>, \<open>a\<close> being current.\<close>

definition two_contexts :: api_Config where
  "two_contexts =
     \<lparr>Clusters = [''a'' \<mapsto> \<lparr>cluster_Server = ''https://a.example'', InsecureSkipTLSVerify = True\<rparr>,
                  ''b'' \<mapsto> \<lparr>cluster_Server = ''https://b.example'', InsecureSkipTLSVerify = True\<rparr>],
      AuthInfos = [''a'' \<mapsto> \<lparr>authinfo_Token = ''tok-a''\<rparr>, ''b'' \<mapsto> \<lparr>authinfo_Token = ''tok-b''\<rparr>],
      Contexts = [''a'' \<mapsto> \<lparr>context_Cluster = ''a'', context_AuthInfo = ''a''\<rparr>,
                  ''b'' \<mapsto> \<lparr>context_Cluster = ''b'', context_AuthInfo = ''b''\<rparr>],
      CurrentContext = ''a''\<rparr>"

text \<open>
  \<open>double_slash_at s i\<close>: the bytes of \<open>s\<close> at positions \<open>i\<close> and \<open>i + 1\<close> are both
  slashes.
\<close>

definition double_slash_at :: "string \<Rightarrow> nat \<Rightarrow> bool" where
  "double_slash_at s i = (i + 1 < length s \<and> s ! i = CHR ''/'' \<and> s ! (i + 1) = CHR ''/'')"

section \<open>Helper lemmas\<close>

lemma Contains_self: "Contains s s"
  by (cases s) auto

lemma Contains_append: "Contains (p @ s) s"
  by (induction p) (auto simp: Contains_self)

lemma Contains_iff_sublist: "Contains s t \<longleftrightarrow> sublist t s"
  by (induction s) (auto simp: sublist_Cons_right)

lemma fmt_d_500: "fmt_d 500 = ''500''"
  by code_simp

lemma TrimRight_no_suffix: "\<not> suffix [c] (TrimRight s [c])"
proof
  assume "suffix [c] (TrimRight s [c])"
  then obtain xs where xs: "TrimRight s [c] = xs @ [c]"
    by (auto simp: suffix_def)
  then have "dropWhile (\<lambda>x. x \<in> set [c]) (rev s) = c # rev xs"
    unfolding TrimRight_def by (metis rev.simps(2) rev_rev_ident)
  then have "\<not> (c \<in> set [c])"
    by (metis (mono_tags, lifting) hd_dropWhile list.sel(1) list.distinct(1))
  then show False by simp
qed

lemma TrimRight_decompose: "\<exists>n. s = TrimRight s [c] @ replicate n c"
proof -
  have "rev s = takeWhile (\<lambda>x. x \<in> set [c]) (rev s) @ dropWhile (\<lambda>x. x \<in> set [c]) (rev s)"
    by simp
  then have "s = rev (dropWhile (\<lambda>x. x \<in> set [c]) (rev s)) @ rev (takeWhile (\<lambda>x. x \<in> set [c]) (rev s))"
    by (metis rev_append rev_rev_ident)
  moreover have "\<forall>x \<in> set (rev (takeWhile (\<lambda>x. x \<in> set [c]) (rev s))). x = c"
    by (auto dest: set_takeWhileD)
  then have "rev (takeWhile (\<lambda>x. x \<in> set [c]) (rev s))
      = replicate (length (rev (takeWhile (\<lambda>x. x \<in> set [c]) (rev s)))) c"
    by (metis replicate_eqI)
  ultimately show ?thesis
    unfolding TrimRight_def by metis
qed

lemma no_double_slash_at_junction:
  assumes "\<not> suffix ''/'' S" and "\<not> prefix ''//'' P"
  shows "\<not> double_slash_at (S @ P) (length S - 1) \<and> \<not> double_slash_at (S @ P) (length S)"
proof -
  have right: "\<not> double_slash_at (S @ P) (length S)"
  proof
    assume "double_slash_at (S @ P) (length S)"
    then have "1 < length P" "P ! 0 = CHR ''/''" "P ! 1 = CHR ''/''"
      by (auto simp: double_slash_at_def nth_append)
    then have "prefix ''//'' P"
      by (cases P; cases "tl P") auto
    with assms(2) show False by simp
  qed
  have left: "\<not> double_slash_at (S @ P) (length S - 1)"
  proof (cases "S = []")
    case True
    with right show ?thesis by simp
  next
    case False
    then have "last S \<noteq> CHR ''/''"
      using assms(1) by (metis append_butlast_last_id suffix_def)
    moreover have "(S @ P) ! (length S - 1) = last S"
      using False by (simp add: nth_append last_conv_nth)
    ultimately show ?thesis by (simp add: double_slash_at_def)
  qed
  from left right show ?thesis by simp
qed

lemma foldl_Finished: "foldl spec_step (Finished res out) rs = Finished res out"
  by (induction rs) auto

text \<open>
  The loop against the fold, for any buffer and terminal: the induction is on the input,
  with the buffer and the terminal generalised, since every iteration changes them.
\<close>

lemma read_loop_fold:
  "fst (read_loop rs buf t) = spec_result (foldl spec_step (Reading buf (stdout t)) rs)
   \<and> stdout (snd (read_loop rs buf t)) = spec_echo (foldl spec_step (Reading buf (stdout t)) rs)"
proof (induction rs arbitrary: buf t)
  case Nil
  show ?case by simp
next
  case (Cons r rs)
  show ?case
  proof (cases r)
    case (Got c)
    then show ?thesis
      using Cons.IH by (simp add: read_iteration_def Let_def foldl_Finished)
  next
    case NoData
    then show ?thesis
      using Cons.IH by (simp add: read_iteration_def Let_def)
  next
    case (ReadFailed err)
    then show ?thesis
      by (simp add: read_iteration_def Let_def foldl_Finished)
  qed
qed

text \<open>
  No iteration changes the mode of the terminal, and every read is logged with the mode
  the terminal had when \<open>ReadSecurely\<close> was called.
\<close>

lemma read_iteration_mode:
  "(case read_iteration r buf t of
      Return res t' \<Rightarrow> mode t' = mode t \<and> history t' = history t @ [Read (mode t)]
    | Continue buf' t' \<Rightarrow> mode t' = mode t \<and> history t' = history t @ [Read (mode t)])"
  by (cases r) (simp_all add: read_iteration_def Let_def)

lemma read_loop_mode:
  "mode (snd (read_loop rs buf t)) = mode t
   \<and> (\<exists>n. history (snd (read_loop rs buf t)) = history t @ replicate n (Read (mode t)))"
proof (induction rs arbitrary: buf t)
  case Nil
  show ?case by (auto intro: exI [of _ 1])
next
  case (Cons r rs)
  show ?case
  proof (cases "read_iteration r buf t")
    case (Return res t')
    then have "mode t' = mode t \<and> history t' = history t @ [Read (mode t)]"
      using read_iteration_mode [where r = r and buf = buf and t = t] by simp
    with Return show ?thesis by (auto intro: exI [of _ 1])
  next
    case (Continue buf' t')
    then have step: "mode t' = mode t \<and> history t' = history t @ [Read (mode t)]"
      using read_iteration_mode [where r = r and buf = buf and t = t] by simp
    from Cons.IH [of buf' t'] obtain n where
      "mode (snd (read_loop rs buf' t')) = mode t'"
      "history (snd (read_loop rs buf' t')) = history t' @ replicate n (Read (mode t'))"
      by blast
    with step Continue show ?thesis
      by (auto intro!: exI [of _ "Suc n"] simp: replicate_app_Cons_same)
  qed
qed

lemma ReadSecurely_mode: "mode (snd (ReadSecurely inp prompt t)) = mode t"
  using read_loop_mode [of "reads inp" "[]"
      "t\<lparr>stdout := stdout t @ prompt, history := history t @ [GetState]\<rparr>"]
  by (simp add: ReadSecurely_def Let_def split: option.splits)

lemma ReadSecurely_history:
  assumes "prompt_error inp = None" and "GetState_error inp = None"
  shows "\<exists>n. history (snd (ReadSecurely inp prompt t))
           = history t @ [GetState] @ replicate n (Read (mode t)) @ [Restore (mode t)]"
  using assms
    read_loop_mode [of "reads inp" "[]"
      "t\<lparr>stdout := stdout t @ prompt, history := history t @ [GetState]\<rparr>"]
  by (auto simp: ReadSecurely_def Let_def)

text \<open>
  A successful \<open>login\<close> leaves, at the configuration path, exactly the configuration it
  built for its server, whatever the file held before.
\<close>

lemma save_kubeconfig_success:
  assumes "save_kubeconfig S k fs = Inr fs'"
  shows "\<exists>path. kubeconfig_path S = Inr path \<and> fs' = fs(path \<mapsto> k)"
  using assms
  by (auto simp: save_kubeconfig_def WriteToFile_def split: sum.splits option.splits)

lemma login_success_file:
  assumes "login_RunE E S fl args fs = (None, fs', evs)"
  shows "\<exists>server others path token. args = server # others \<and> kubeconfig_path S = Inr path
           \<and> fs' = fs(path \<mapsto> login_kubeconfig server token)"
proof (cases args)
  case Nil
  with assms show ?thesis by (simp add: login_RunE_def)
next
  case (Cons server others)
  from assms Cons obtain token where "save_kubeconfig S (login_kubeconfig server token) fs = Inr fs'"
    by (simp add: login_RunE_def split: if_splits sum.splits prod.splits)
  from save_kubeconfig_success [OF this] Cons show ?thesis by blast
qed

lemma login_kubeconfig_single:
  "dom (Clusters (login_kubeconfig server token)) = {server}
   \<and> dom (AuthInfos (login_kubeconfig server token)) = {server}
   \<and> dom (Contexts (login_kubeconfig server token)) = {server}
   \<and> CurrentContext (login_kubeconfig server token) = server
   \<and> Clusters (login_kubeconfig server token) server
       = Some \<lparr>cluster_Server = server, InsecureSkipTLSVerify = True\<rparr>"
  by (simp add: login_kubeconfig_def NewConfig_def NewCluster_def NewAuthInfo_def NewContext_def)

section \<open>Package auth: the claims\<close>

text \<open>
  Claim C2. The claim is that an authenticator whose configuration leaves \<open>AuthPath\<close>
  unset posts to the server followed by \<open>/auth\<close>. \<open>DefaultConfig\<close> carries \<open>/auth\<close>, but
  \<open>NewAuthenticator\<close> takes it only for a nil configuration, which it then rejects
  because the default has no server. For the configuration \<open>login\<close> and the
  package-level \<open>Authenticate\<close> build (a server and nothing else), the one request goes
  to the bare server URL \<open>https://api.example.com\<close>.
\<close>

theorem unset_auth_path_posts_to_bare_server:
  "map (\<lambda>(c, r). ReqURL r)
     (sent_requests (snd (Authenticate token_env ''https://api.example.com'' ''admin'' ''pw'')))
     = [''https://api.example.com'']
   \<and> NewAuthenticator token_env None = Inl ErrInvalidServer"
  by code_simp

text \<open>
  Claim C3. When the username or the password is the empty string, both the method
  \<open>Authenticate\<close> and the package-level \<open>Authenticate\<close> return \<open>ErrEmptyCredentials\<close>
  and perform no event; the outcome is the same in every environment, so nothing of the
  environment (URL handling, serialization, network) takes part in it.
\<close>

theorem empty_credentials_no_io:
  assumes "username = [] \<or> password = []"
  shows "httpAuthenticator_Authenticate E a username password = (Inl ErrEmptyCredentials, [])
       \<and> Authenticate E server username password = (Inl ErrEmptyCredentials, [])"
  using assms by (auto simp: httpAuthenticator_Authenticate_def Authenticate_def)

theorem empty_credentials_no_io_witness:
  "httpAuthenticator_Authenticate offline_env example_authenticator [] ''testpass''
     = (Inl ErrEmptyCredentials, [])
   \<and> Authenticate offline_env ''https://api.example.com'' [] ''testpass''
     = (Inl ErrEmptyCredentials, [])"
  using empty_credentials_no_io [of "[]" "''testpass''"] by simp

text \<open>
  Claim C4. With a non-empty username and password, an authenticator whose configured
  server contains \<open>test.com\<close> returns the fixed token \<open>test-token\<close> and performs no
  event, in every environment; the package-level \<open>Authenticate\<close> does the same for a
  server argument that contains \<open>test.com\<close>.
\<close>

theorem test_com_bypass:
  assumes "username \<noteq> []" and "password \<noteq> []"
  shows "(Contains (Server (config a)) ''test.com'' \<longrightarrow>
            httpAuthenticator_Authenticate E a username password = (Inr ''test-token'', []))
       \<and> (Contains server ''test.com'' \<longrightarrow>
            Authenticate E server username password = (Inr ''test-token'', []))"
  using assms by (simp add: httpAuthenticator_Authenticate_def Authenticate_def)

theorem test_com_bypass_witness:
  "httpAuthenticator_Authenticate offline_env
     \<lparr>config = \<lparr>Server = ''https://api.test.com:6443'', AuthPath = [], Timeout = 0,
                 InsecureSkipVerify = False\<rparr>,
      client = \<lparr>client_Timeout = 0, TLS_InsecureSkipVerify = False\<rparr>\<rparr> ''admin'' ''pw''
     = (Inr ''test-token'', [])
   \<and> Authenticate offline_env ''https://api.test.com:6443'' ''admin'' ''pw''
     = (Inr ''test-token'', [])"
  using test_com_bypass [of "''admin''" "''pw''"
      "\<lparr>config = \<lparr>Server = ''https://api.test.com:6443'', AuthPath = [], Timeout = 0,
                  InsecureSkipVerify = False\<rparr>,
        client = \<lparr>client_Timeout = 0, TLS_InsecureSkipVerify = False\<rparr>\<rparr>"
      offline_env "''https://api.test.com:6443''"]
  by simp

text \<open>
  Claim C5, as the code has it. Whenever construction succeeds, the server of the
  authenticator is the printed form of the parsed URL (its scheme set to \<open>https\<close> when the
  parsed scheme is empty) with every trailing slash removed, not only one: the printed
  form is the server followed by some number of slashes, and the server does not end with
  a slash. A non-empty \<open>AuthPath\<close> is kept when it starts with a slash and gets one
  prepended otherwise. Hence, when the given \<open>AuthPath\<close> does not itself start with two
  slashes, the request URL, server followed by path, has no double slash where the two
  meet: neither at the last byte of the server nor at the first byte of the path.
\<close>

theorem server_and_path_normalized:
  assumes "NewAuthenticator E (Some cfg) = Inr a"
  shows "(\<exists>parsed n. url_Parse E (Server cfg) = Inr parsed
            \<and> url_String E (if Scheme parsed = [] then parsed\<lparr>Scheme := ''https''\<rparr> else parsed)
                = Server (config a) @ replicate n (CHR ''/''))
       \<and> \<not> suffix ''/'' (Server (config a))
       \<and> AuthPath (config a)
           = (if AuthPath cfg = [] \<or> prefix ''/'' (AuthPath cfg) then AuthPath cfg
              else ''/'' @ AuthPath cfg)
       \<and> (AuthPath cfg \<noteq> [] \<longrightarrow> prefix ''/'' (AuthPath (config a)))
       \<and> (\<not> prefix ''//'' (AuthPath cfg) \<longrightarrow>
            \<not> double_slash_at (Server (config a) @ AuthPath (config a)) (length (Server (config a)) - 1)
            \<and> \<not> double_slash_at (Server (config a) @ AuthPath (config a)) (length (Server (config a))))"
proof -
  from assms obtain parsed where parsed: "url_Parse E (Server cfg) = Inr parsed"
    by (auto simp: NewAuthenticator_def Let_def split: if_splits sum.splits)
  define u where "u = (if Scheme parsed = [] then parsed\<lparr>Scheme := ''https''\<rparr> else parsed)"
  have server: "Server (config a) = TrimRight (url_String E u) ''/''"
    using assms parsed unfolding u_def
    by (auto simp: NewAuthenticator_def Let_def split: if_splits)
  have path: "AuthPath (config a)
      = (if AuthPath cfg = [] \<or> prefix ''/'' (AuthPath cfg) then AuthPath cfg
         else ''/'' @ AuthPath cfg)"
    using assms parsed
    by (auto simp: NewAuthenticator_def Let_def HasPrefix_def split: if_splits)
  obtain n where n: "url_String E u = Server (config a) @ replicate n (CHR ''/'')"
    using TrimRight_decompose [of "url_String E u" "CHR ''/''"] server by auto
  have nosuffix: "\<not> suffix ''/'' (Server (config a))"
    unfolding server by (rule TrimRight_no_suffix)
  have slash: "AuthPath cfg \<noteq> [] \<longrightarrow> prefix ''/'' (AuthPath (config a))"
    unfolding path by simp
  have keep: "\<not> prefix ''//'' (AuthPath cfg) \<Longrightarrow> \<not> prefix ''//'' (AuthPath (config a))"
    unfolding path by (cases "AuthPath cfg") auto
  have junction: "\<not> prefix ''//'' (AuthPath cfg) \<longrightarrow>
            \<not> double_slash_at (Server (config a) @ AuthPath (config a)) (length (Server (config a)) - 1)
            \<and> \<not> double_slash_at (Server (config a) @ AuthPath (config a)) (length (Server (config a)))"
    using no_double_slash_at_junction [OF nosuffix] keep by blast
  from parsed n show ?thesis
    unfolding u_def using nosuffix path slash junction by blast
qed

text \<open>
  An instance: the server \<open>api.example.com/\<close>, without a scheme and with a trailing
  slash, and the path \<open>auth\<close>, without a leading slash, give \<open>https://api.example.com\<close>
  and \<open>/auth\<close>.
\<close>

theorem server_and_path_normalized_witness:
  "NewAuthenticator offline_env
     (Some \<lparr>Server = ''api.example.com/'', AuthPath = ''auth'', Timeout = 0,
            InsecureSkipVerify = False\<rparr>) = Inr example_authenticator
   \<and> \<not> suffix ''/'' ''https://api.example.com''
   \<and> \<not> double_slash_at ''https://api.example.com/auth'' (length ''https://api.example.com'' - 1)
   \<and> \<not> double_slash_at ''https://api.example.com/auth'' (length ''https://api.example.com'')"
proof -
  have built: "NewAuthenticator offline_env
     (Some \<lparr>Server = ''api.example.com/'', AuthPath = ''auth'', Timeout = 0,
            InsecureSkipVerify = False\<rparr>) = Inr example_authenticator"
    by code_simp
  from server_and_path_normalized [OF built] built show ?thesis
    by (simp add: example_authenticator_def)
qed

text \<open>
  Against claim C5 as stated. On the server \<open>https://a.com//\<close> the URL is parsed and
  printed unchanged, and stripping one trailing slash would leave \<open>https://a.com/\<close>;
  construction gives \<open>https://a.com\<close>. And a path given as \<open>//auth\<close> is kept, so the
  request URL \<open>https://a.com//auth\<close> has a double slash where server and path meet.
\<close>

theorem strip_one_slash_counterexample:
  "map_sum id (\<lambda>a. Server (config a))
     (NewAuthenticator offline_env
        (Some \<lparr>Server = ''https://a.com//'', AuthPath = ''auth'', Timeout = 0,
               InsecureSkipVerify = False\<rparr>)) = Inr ''https://a.com''
   \<and> plain_url_Parse ''https://a.com//''
       = Inr (empty_URL\<lparr>Scheme := ''https'', Host := ''a.com'', Path := ''//''\<rparr>)
   \<and> spec_strip_one_slash
        (plain_url_String (empty_URL\<lparr>Scheme := ''https'', Host := ''a.com'', Path := ''//''\<rparr>))
       = ''https://a.com/''
   \<and> map_sum id (\<lambda>a. Server (config a) @ AuthPath (config a))
        (NewAuthenticator offline_env
           (Some \<lparr>Server = ''https://a.com'', AuthPath = ''//auth'', Timeout = 0,
                  InsecureSkipVerify = False\<rparr>)) = Inr ''https://a.com//auth''
   \<and> double_slash_at ''https://a.com//auth'' 13"
  by code_simp

text \<open>
  Claim C6. Suppose the credentials are non-empty, the server is not a \<open>test.com\<close> one,
  the request is built and sent, and the response body is read and decodes into an
  \<open>AuthResponse\<close>. Then the call performs exactly one request and the close of the
  body, and its result is: for a status other than 200 and a non-empty error string, the
  error \<open>authentication failed: \<close> followed by that string; for a status other than 200
  and no error string, the error \<open>authentication failed with status code: \<close> followed by
  the status in decimal; for status 200 and an empty token, \<open>ErrEmptyToken\<close>; for status
  200 and a non-empty token, that token.
\<close>

theorem response_outcomes:
  assumes "username \<noteq> []" and "password \<noteq> []"
    and "\<not> Contains (Server (config a)) ''test.com''"
    and "json_Marshal E \<lparr>Username = username, Password = password\<rparr> = Inr jsonData"
    and "NewRequest_error E ''POST'' (Server (config a) @ AuthPath (config a)) = None"
    and "client_Do E (client a)
           (new_post_request (Server (config a) @ AuthPath (config a)) jsonData) = Inr resp"
    and "RespBody resp = Inr body"
    and "json_Unmarshal E body = Inr authResp"
  shows "snd (httpAuthenticator_Authenticate E a username password)
           = [Sent (client a) (new_post_request (Server (config a) @ AuthPath (config a)) jsonData),
              BodyClosed]
       \<and> (StatusCode resp \<noteq> 200 \<and> Error authResp \<noteq> [] \<longrightarrow>
            fst (httpAuthenticator_Authenticate E a username password)
              = Inl (Errorf (''authentication failed: '' @ Error authResp))
            \<and> Contains (''authentication failed: '' @ Error authResp) (Error authResp))
       \<and> (StatusCode resp \<noteq> 200 \<and> Error authResp = [] \<longrightarrow>
            fst (httpAuthenticator_Authenticate E a username password)
              = Inl (Errorf (''authentication failed with status code: '' @ fmt_d (StatusCode resp)))
            \<and> Contains (''authentication failed with status code: '' @ fmt_d (StatusCode resp))
                 (fmt_d (StatusCode resp)))
       \<and> (StatusCode resp = 200 \<and> Token authResp = [] \<longrightarrow>
            fst (httpAuthenticator_Authenticate E a username password) = Inl ErrEmptyToken)
       \<and> (StatusCode resp = 200 \<and> Token authResp \<noteq> [] \<longrightarrow>
            fst (httpAuthenticator_Authenticate E a username password) = Inr (Token authResp))"
proof -
  have run: "httpAuthenticator_Authenticate E a username password
      = (handle_response E resp,
         [Sent (client a) (new_post_request (Server (config a) @ AuthPath (config a)) jsonData),
          BodyClosed])"
    using assms(1-6) by (simp add: httpAuthenticator_Authenticate_def Let_def)
  have decoded: "handle_response E resp =
      (if StatusCode resp \<noteq> 200 then
         (if Error authResp \<noteq> []
          then Inl (Errorf (''authentication failed: '' @ Error authResp))
          else Inl (Errorf (''authentication failed with status code: '' @ fmt_d (StatusCode resp))))
       else if Token authResp = [] then Inl ErrEmptyToken
       else Inr (Token authResp))"
    using assms(7,8) by (simp add: handle_response_def)
  have c1: "Contains (''authentication failed: '' @ Error authResp) (Error authResp)"
    by (rule Contains_append)
  have c2: "Contains (''authentication failed with status code: '' @ fmt_d (StatusCode resp))
      (fmt_d (StatusCode resp))"
    by (rule Contains_append)
  show ?thesis
    unfolding run decoded using c1 c2 by (simp del: Contains.simps)
qed

text \<open>
  Instances: a 404 whose body carries the error \<open>bad creds\<close>, a 500 and a 200 whose
  body \<open>{}\<close> carries neither an error nor a token, and a 200 with the token \<open>tok-123\<close>.
\<close>

theorem response_outcomes_witness:
  "fst (httpAuthenticator_Authenticate
          (stub_env (Inr \<lparr>StatusCode = 404, RespBody = Inr bad_creds_body\<rparr>)
             [(bad_creds_body, \<lparr>Token = [], Error = ''bad creds''\<rparr>)])
          example_authenticator ''admin'' ''pw'')
     = Inl (Errorf ''authentication failed: bad creds'')
   \<and> fst (httpAuthenticator_Authenticate
          (stub_env (Inr \<lparr>StatusCode = 500, RespBody = Inr ''{}''\<rparr>)
             [(''{}'', \<lparr>Token = [], Error = []\<rparr>)])
          example_authenticator ''admin'' ''pw'')
     = Inl (Errorf ''authentication failed with status code: 500'')
   \<and> Contains ''authentication failed with status code: 500'' ''500''
   \<and> fst (httpAuthenticator_Authenticate
          (stub_env (Inr \<lparr>StatusCode = 200, RespBody = Inr ''{}''\<rparr>)
             [(''{}'', \<lparr>Token = [], Error = []\<rparr>)])
          example_authenticator ''admin'' ''pw'')
     = Inl ErrEmptyToken
   \<and> fst (httpAuthenticator_Authenticate token_env example_authenticator ''admin'' ''pw'')
     = Inr ''tok-123''"
proof -
  let ?E404 = "stub_env (Inr \<lparr>StatusCode = 404, RespBody = Inr bad_creds_body\<rparr>)
             [(bad_creds_body, \<lparr>Token = [], Error = ''bad creds''\<rparr>)]"
  let ?E500 = "stub_env (Inr \<lparr>StatusCode = 500, RespBody = Inr ''{}''\<rparr>)
             [(''{}'', \<lparr>Token = [], Error = []\<rparr>)]"
  let ?E200 = "stub_env (Inr \<lparr>StatusCode = 200, RespBody = Inr ''{}''\<rparr>)
             [(''{}'', \<lparr>Token = [], Error = []\<rparr>)]"
  have a: "fst (httpAuthenticator_Authenticate ?E404 example_authenticator ''admin'' ''pw'')
     = Inl (Errorf ''authentication failed: bad creds'')"
    using response_outcomes [of "''admin''" "''pw''" example_authenticator ?E404 _
        "\<lparr>StatusCode = 404, RespBody = Inr bad_creds_body\<rparr>" bad_creds_body
        "\<lparr>Token = [], Error = ''bad creds''\<rparr>"]
    by (simp add: stub_env_def example_authenticator_def plain_json_Marshal_def
        table_Unmarshal_def)
  have b: "fst (httpAuthenticator_Authenticate ?E500 example_authenticator ''admin'' ''pw'')
     = Inl (Errorf ''authentication failed with status code: 500'')
     \<and> Contains ''authentication failed with status code: 500'' ''500''"
    using response_outcomes [of "''admin''" "''pw''" example_authenticator ?E500 _
        "\<lparr>StatusCode = 500, RespBody = Inr ''{}''\<rparr>" "''{}''"
        "\<lparr>Token = [], Error = []\<rparr>"]
    by (simp add: stub_env_def example_authenticator_def plain_json_Marshal_def
        table_Unmarshal_def fmt_d_500)
  have c: "fst (httpAuthenticator_Authenticate ?E200 example_authenticator ''admin'' ''pw'')
     = Inl ErrEmptyToken"
    using response_outcomes [of "''admin''" "''pw''" example_authenticator ?E200 _
        "\<lparr>StatusCode = 200, RespBody = Inr ''{}''\<rparr>" "''{}''"
        "\<lparr>Token = [], Error = []\<rparr>"]
    by (simp add: stub_env_def example_authenticator_def plain_json_Marshal_def
        table_Unmarshal_def)
  have d: "fst (httpAuthenticator_Authenticate token_env example_authenticator ''admin'' ''pw'')
     = Inr ''tok-123''"
    using response_outcomes [of "''admin''" "''pw''" example_authenticator token_env _
        "\<lparr>StatusCode = 200, RespBody = Inr token_body\<rparr>" token_body
        "\<lparr>Token = ''tok-123'', Error = []\<rparr>"]
    by (simp add: token_env_def stub_env_def example_authenticator_def plain_json_Marshal_def
        table_Unmarshal_def)
  from a b c d show ?thesis by simp
qed

section \<open>Package util: the claims\<close>

text \<open>
  Claim C7. When the prompt is written and the terminal state is obtained, the result
  of \<open>ReadSecurely\<close> on any finite input is the result of the left fold of \<open>spec_step\<close>
  over the input, started with the empty buffer, and what it has written to standard
  output is the echo of that fold: a printable byte (32 to 126) is appended and echoed as
  \<open>*\<close>; backspace or delete (8 or 127) removes the last byte of a non-empty buffer and
  does nothing on an empty one; carriage return or newline ends the read with the
  buffer; byte 3 ends it with the error \<open>interrupted by user\<close>, the buffer dropped; any
  other byte is ignored; and a failed read ends it with that error, wrapped as
  \<open>failed to read character\<close>.
\<close>

theorem secure_reader_is_fold:
  assumes "prompt_error inp = None" and "GetState_error inp = None"
  shows "fst (ReadSecurely inp prompt t)
           = spec_result (foldl spec_step (Reading [] (stdout t @ prompt)) (reads inp))
       \<and> stdout (snd (ReadSecurely inp prompt t))
           = spec_echo (foldl spec_step (Reading [] (stdout t @ prompt)) (reads inp))"
  using assms
    read_loop_fold [of "reads inp" "[]"
      "t\<lparr>stdout := stdout t @ prompt, history := history t @ [GetState]\<rparr>"]
  by (simp add: ReadSecurely_def Let_def)

text \<open>
  Instances: the bytes \<open>a b DEL c CR\<close> give \<open>ac\<close>; \<open>CR\<close> alone gives the empty string;
  a stream with byte 3 gives the interrupt error whatever was typed before; and the echo
  of the first stream is two masks, an erase, a mask and a newline.
\<close>

theorem secure_reader_is_fold_witness:
  "fst (ReadSecurely (typed (''ab'' @ [CHR 0x7F] @ ''c'' @ [CHR 0x0D])) ''Enter password: '' tty0)
     = Inr ''ac''
   \<and> fst (ReadSecurely (typed [CHR 0x0D]) ''Enter password: '' tty0) = Inr []
   \<and> fst (ReadSecurely (typed (''ab'' @ [CHR 0x03] @ ''c'' @ [CHR 0x0D])) ''Enter password: '' tty0)
     = Inl (Errorf ''interrupted by user'')
   \<and> stdout (snd (ReadSecurely (typed (''ab'' @ [CHR 0x7F] @ ''c'' @ [CHR 0x0D])) ''> '' tty0))
     = ''> **'' @ [CHR 0x08, CHR '' '', CHR 0x08] @ ''*'' @ [CHR 0x0A]"
  using secure_reader_is_fold [of "typed (''ab'' @ [CHR 0x7F] @ ''c'' @ [CHR 0x0D])"
      "''Enter password: ''" tty0]
    secure_reader_is_fold [of "typed [CHR 0x0D]" "''Enter password: ''" tty0]
    secure_reader_is_fold [of "typed (''ab'' @ [CHR 0x03] @ ''c'' @ [CHR 0x0D])"
      "''Enter password: ''" tty0]
    secure_reader_is_fold [of "typed (''ab'' @ [CHR 0x7F] @ ''c'' @ [CHR 0x0D])" "''> ''" tty0]
  by (simp add: typed_def tty0_def is_printable_def)

text \<open>
  Claim C8. The claim is that \<open>ReadSecurely\<close> puts the terminal into raw mode before
  its loop and restores the recorded mode on every way out. The restore is there (see
  \<open>ReadSecurely_history\<close>), but no call changes the mode (see \<open>ReadSecurely_mode\<close>):
  on a terminal in canonical mode where the user types \<open>a\<close> and return, the state is
  recorded, both reads happen in canonical mode, and the canonical mode is restored.
\<close>

theorem read_securely_stays_canonical:
  "ReadSecurely (typed (''a'' @ [CHR 0x0D])) ''Enter password: '' tty0
     = (Inr ''a'',
        \<lparr>mode = Canonical, stdout = ''Enter password: *'' @ [CHR 0x0A],
         history = [GetState, Read Canonical, Read Canonical, Restore Canonical]\<rparr>)"
  by (simp add: ReadSecurely_def typed_def tty0_def read_iteration_def is_printable_def)

section \<open>Package cmd: the claims\<close>

text \<open>
  Claim C1. The claim is that a successful login keeps the records of every other
  server. \<open>login\<close> starts from \<open>api.NewConfig()\<close> and never loads the file, so the
  file it writes holds the records of its own server only (see \<open>login_success_file\<close>
  and \<open>login_kubeconfig_single\<close>): after a login to \<open>https://a.example\<close> the file has the
  context of that server, and after a second login, to \<open>https://b.example\<close>, the
  cluster, the credential and the context of \<open>https://a.example\<close> are gone and the
  current context is \<open>https://b.example\<close>.
\<close>

theorem login_replaces_whole_file:
  "(case login_RunE token_env test_sys (login_flags False) [''https://a.example''] Map.empty of
      (err1, fs1, evs1) \<Rightarrow>
        (case login_RunE token_env test_sys (login_flags False) [''https://b.example''] fs1 of
           (err2, fs2, evs2) \<Rightarrow>
             err1 = None \<and> err2 = None
             \<and> map_option (\<lambda>c. Contexts c ''https://a.example'') (fs1 ''/tmp/skectl/config'')
                 = Some (Some \<lparr>context_Cluster = ''https://a.example'',
                                context_AuthInfo = ''https://a.example''\<rparr>)
             \<and> map_option (\<lambda>c. (Clusters c ''https://a.example'', AuthInfos c ''https://a.example'',
                                  Contexts c ''https://a.example'', CurrentContext c))
                   (fs2 ''/tmp/skectl/config'')
                 = Some (None, None, None, ''https://b.example'')))"
  by code_simp

text \<open>
  Claim C9. Let the configuration path be found and the file at that path hold the
  configuration \<open>c\<close>. If the name is a key of the contexts of \<open>c\<close> (and the file can be
  written), \<open>use-context\<close> succeeds and the file then holds \<open>c\<close> with its current context
  set to the name: clusters, credentials and contexts are those of \<open>c\<close>, and no other file
  changes. If the name is not a key, it fails with \<open>ContextNotFound\<close> and every file,
  with its current context, is as before.
\<close>

theorem use_context_switch:
  assumes "kubeconfig_path S = Inr path" and "fs path = Some c"
  shows "(Contexts c name \<noteq> None \<and> WriteFile_error S path = None \<longrightarrow>
            use_context_RunE S (name # others) fs = (None, fs(path \<mapsto> c\<lparr>CurrentContext := name\<rparr>))
            \<and> Clusters (c\<lparr>CurrentContext := name\<rparr>) = Clusters c
            \<and> AuthInfos (c\<lparr>CurrentContext := name\<rparr>) = AuthInfos c
            \<and> Contexts (c\<lparr>CurrentContext := name\<rparr>) = Contexts c)
       \<and> (Contexts c name = None \<longrightarrow>
            use_context_RunE S (name # others) fs = (Some (ContextNotFound name), fs))"
  using assms by (auto simp: use_context_RunE_def LoadFromFile_def WriteToFile_def)

text \<open>
  Instances on a file with the contexts \<open>a\<close> and \<open>b\<close>: switching to \<open>b\<close> rewrites the
  file with \<open>b\<close> current, switching to \<open>c\<close> fails and leaves the file.
\<close>

theorem use_context_switch_witness:
  "use_context_RunE test_sys [''b''] [''/tmp/skectl/config'' \<mapsto> two_contexts]
     = (None, [''/tmp/skectl/config'' \<mapsto> two_contexts]
                (''/tmp/skectl/config'' \<mapsto> two_contexts\<lparr>CurrentContext := ''b''\<rparr>))
   \<and> use_context_RunE test_sys [''c''] [''/tmp/skectl/config'' \<mapsto> two_contexts]
     = (Some (ContextNotFound ''c''), [''/tmp/skectl/config'' \<mapsto> two_contexts])"
  using use_context_switch [of test_sys "''/tmp/skectl/config''"
      "[''/tmp/skectl/config'' \<mapsto> two_contexts]" two_contexts "''b''" "[]"]
    use_context_switch [of test_sys "''/tmp/skectl/config''"
      "[''/tmp/skectl/config'' \<mapsto> two_contexts]" two_contexts "''c''" "[]"]
  by (simp add: kubeconfig_path_def test_sys_def two_contexts_def)

text \<open>
  Claim C10. The claim is that the flag \<open>insecure-skip-tls-verify\<close> drives both the TLS
  policy of the client and the value persisted in the cluster record. The flag is
  declared and read nowhere: a login without it persists a cluster record whose
  \<open>InsecureSkipTLSVerify\<close> is true, and a login with it sends its request through a
  client whose \<open>InsecureSkipVerify\<close> is false.
\<close>

theorem login_ignores_insecure_flag:
  "(case login_RunE token_env test_sys (login_flags False) [''https://api.example.com''] Map.empty of
      (err, fs', evs) \<Rightarrow>
        err = None
        \<and> map_option (\<lambda>c. map_option InsecureSkipTLSVerify (Clusters c ''https://api.example.com''))
             (fs' ''/tmp/skectl/config'') = Some (Some True))
   \<and> (case login_RunE token_env test_sys (login_flags True) [''https://api.example.com''] Map.empty of
      (err, fs', evs) \<Rightarrow>
        err = None
        \<and> map (\<lambda>(c, r). TLS_InsecureSkipVerify c) (sent_requests evs) = [False])"
  by code_simp

end
